theory Spec2Isabelle
  imports Complex_Main "HOL-Library.Multiset" "HOL-Library.Option_ord"
begin

section \<open>Data model\<close>

text \<open>
  The server keeps two collections, users and payments, behind two schemas
  (\<^verbatim>\<open>models/User.js\<close>, \<^verbatim>\<open>models/Payment.js\<close>) and answers four routes
  (\<^verbatim>\<open>controllers/userController.js\<close>, \<^verbatim>\<open>controllers/paymentController.js\<close>).
  A handler builds a document from the request body, saves it and sends it back;
  every failure of the save is caught and sent with status 400. The database is
  taken to answer every call: a lost connection is no part of what follows.

  An \<^verbatim>\<open>ObjectId\<close> is an opaque identifier and a \<^verbatim>\<open>Date\<close> a number of
  milliseconds. An amount is a JSON number; no handler computes with it, so it is
  the rational the number denotes.
\<close>

type_synonym oid = nat
type_synonym timestamp = int

text \<open>
  What the request body holds at one path of a schema, after the schema's type has
  cast it: the key is missing, the value is \<^verbatim>\<open>null\<close>, the value cannot be cast
  to the path's type, or it casts to a value. Keys that are no path of the schema
  are dropped by the document constructor, so a body is the record of its schema's
  paths; \<^verbatim>\<open>_id\<close> is a path of every schema.
\<close>

datatype 'a field = Absent | Null | Uncastable | Given 'a

text \<open>
  \<^verbatim>\<open>UserSchema\<close>: three required strings, the first two unique. In a document
  \<open>None\<close> is \<^verbatim>\<open>null\<close>; only the \<^verbatim>\<open>_id\<close> of a document can be.
\<close>

record user =
  user_id :: "oid option"
  username :: string
  email :: string
  password :: string

record user_body =
  req_user_id :: "oid field"
  req_username :: "string field"
  req_email :: "string field"
  req_password :: "string field"

text \<open>
  \<^verbatim>\<open>PaymentSchema\<close>: \<^verbatim>\<open>userId\<close> is an optional reference with no validator,
  \<^verbatim>\<open>amount\<close> and \<^verbatim>\<open>currency\<close> are required, \<^verbatim>\<open>status\<close> is one of an
  enumeration and defaults to \<^verbatim>\<open>'pending'\<close>, \<^verbatim>\<open>createdAt\<close> defaults to
  \<^verbatim>\<open>Date.now\<close>. In a document \<open>None\<close> is \<^verbatim>\<open>null\<close>, and for \<^verbatim>\<open>userId\<close>,
  the one path without a default, also a missing key: the document refers to no user.
\<close>

record payment =
  payment_id :: "oid option"
  userId :: "oid option"
  amount :: rat
  currency :: string
  status :: "string option"
  createdAt :: "timestamp option"

record payment_body =
  req_payment_id :: "oid field"
  req_userId :: "oid field"
  req_amount :: "rat field"
  req_currency :: "string field"
  req_status :: "string field"
  req_createdAt :: "timestamp field"

record login_body =
  req_usernameOrEmail :: "string field"
  req_login_password :: "string field"

text \<open>
  The errors a save or a query can throw: a validation error listing every path
  that failed with the validator that rejected it, the duplicate-key error of a
  unique index (of the \<^verbatim>\<open>_id\<close> index with the identifier, of another with the
  indexed path and the value), and the cast error of a query filter.
\<close>

datatype validator = Required | CastFailed | NotInEnum

datatype error =
    ValidationError "(string \<times> validator) list"
  | DuplicateId oid
  | DuplicateKey string string
  | CastError string

datatype payload =
    UserBody user
  | PaymentBody payment
  | PaymentsBody "payment list"
  | ErrorBody error
  | TextBody string

record response =
  http_status :: nat
  body :: payload

text \<open>
  The database: each collection as the list of its documents in the order in which
  an unsorted query returns them. The code fixes no such order; the place a new
  payment takes in it is the database's choice, an argument of the insert. The
  order of the users is never observed.
\<close>

record store =
  users :: "user list"
  payments :: "payment list"

definition empty_store :: store where
  "empty_store = \<lparr>users = [], payments = []\<rparr>"

definition insert_at :: "nat \<Rightarrow> 'a \<Rightarrow> 'a list \<Rightarrow> 'a list" where
  "insert_at pos x xs = take pos xs @ x # drop pos xs"

section \<open>Schema validation\<close>

text \<open>
  A required string path: a missing key, \<^verbatim>\<open>null\<close> and the empty string all
  fail the \<^verbatim>\<open>required\<close> validator.
\<close>

fun required_string :: "string \<Rightarrow> string field \<Rightarrow> (string \<times> validator) list" where
  "required_string path Absent = [(path, Required)]"
| "required_string path Null = [(path, Required)]"
| "required_string path Uncastable = [(path, CastFailed)]"
| "required_string path (Given s) = (if s = [] then [(path, Required)] else [])"

fun required_path :: "string \<Rightarrow> 'a field \<Rightarrow> (string \<times> validator) list" where
  "required_path path Absent = [(path, Required)]"
| "required_path path Null = [(path, Required)]"
| "required_path path Uncastable = [(path, CastFailed)]"
| "required_path path (Given v) = []"

fun optional_path :: "string \<Rightarrow> 'a field \<Rightarrow> (string \<times> validator) list" where
  "optional_path path Uncastable = [(path, CastFailed)]"
| "optional_path path Absent = []"
| "optional_path path Null = []"
| "optional_path path (Given v) = []"

definition status_enum :: "string list" where
  "status_enum = [''pending'', ''completed'', ''failed'']"

text \<open>
  A path with an enumeration. Whether the \<^verbatim>\<open>enum\<close> validator lets \<^verbatim>\<open>null\<close>
  pass depends on the version of the library, which the repository does not fix:
  \<open>nullOk\<close> says that it does.
\<close>

fun enum_path ::
  "bool \<Rightarrow> string \<Rightarrow> string list \<Rightarrow> string field \<Rightarrow> (string \<times> validator) list" where
  "enum_path nullOk path vals Uncastable = [(path, CastFailed)]"
| "enum_path nullOk path vals Absent = []"
| "enum_path nullOk path vals Null = (if nullOk then [] else [(path, NotInEnum)])"
| "enum_path nullOk path vals (Given s) = (if s \<in> set vals then [] else [(path, NotInEnum)])"

definition validateUser :: "user_body \<Rightarrow> (string \<times> validator) list" where
  "validateUser b =
     optional_path ''_id'' (req_user_id b) @
     required_string ''username'' (req_username b) @
     required_string ''email'' (req_email b) @
     required_string ''password'' (req_password b)"

definition validatePayment :: "bool \<Rightarrow> payment_body \<Rightarrow> (string \<times> validator) list" where
  "validatePayment nullOk b =
     optional_path ''_id'' (req_payment_id b) @
     optional_path ''userId'' (req_userId b) @
     required_path ''amount'' (req_amount b) @
     required_string ''currency'' (req_currency b) @
     enum_path nullOk ''status'' status_enum (req_status b) @
     optional_path ''createdAt'' (req_createdAt b)"

section \<open>Documents\<close>

text \<open>
  The value of a path that has a default: the default fills a missing key only, and
  \<^verbatim>\<open>null\<close> stays. A value that cannot be cast is not stored; validation rejects
  the document.
\<close>

fun with_default :: "'a \<Rightarrow> 'a field \<Rightarrow> 'a option" where
  "with_default d Absent = Some d"
| "with_default d (Given v) = Some v"
| "with_default d Null = None"
| "with_default d Uncastable = None"

text \<open>The value of a path without a default.\<close>

fun without_default :: "'a field \<Rightarrow> 'a option" where
  "without_default (Given v) = Some v"
| "without_default Absent = None"
| "without_default Null = None"
| "without_default Uncastable = None"

text \<open>
  \<^verbatim>\<open>new User(req.body)\<close> followed by the validation that \<^verbatim>\<open>save\<close> runs first.
  The default of \<^verbatim>\<open>_id\<close> is the identifier \<open>newId\<close> generated for the document.
  The password is stored as the body gives it.
\<close>

definition newUser :: "oid \<Rightarrow> user_body \<Rightarrow> error + user" where
  "newUser newId b =
     (case (req_username b, req_email b, req_password b) of
        (Given un, Given em, Given pw) \<Rightarrow>
          (if validateUser b = []
           then Inr \<lparr>user_id = with_default newId (req_user_id b),
                     username = un, email = em, password = pw\<rparr>
           else Inl (ValidationError (validateUser b)))
      | _ \<Rightarrow> Inl (ValidationError (validateUser b)))"

text \<open>
  \<^verbatim>\<open>new Payment(req.body)\<close> followed by the validation of \<^verbatim>\<open>save\<close>; \<open>now\<close> is
  what \<^verbatim>\<open>Date.now\<close> returns.
\<close>

definition newPayment :: "bool \<Rightarrow> oid \<Rightarrow> timestamp \<Rightarrow> payment_body \<Rightarrow> error + payment" where
  "newPayment nullOk newId now b =
     (case (req_amount b, req_currency b) of
        (Given a, Given c) \<Rightarrow>
          (if validatePayment nullOk b = []
           then Inr \<lparr>payment_id = with_default newId (req_payment_id b),
                     userId = without_default (req_userId b),
                     amount = a,
                     currency = c,
                     status = with_default ''pending'' (req_status b),
                     createdAt = with_default now (req_createdAt b)\<rparr>
           else Inl (ValidationError (validatePayment nullOk b)))
      | _ \<Rightarrow> Inl (ValidationError (validatePayment nullOk b)))"

text \<open>
  The identifier under which the driver inserts a document: the document's own, or
  a generated one when that is \<^verbatim>\<open>null\<close>. The document the handler holds, and
  sends, keeps its \<^verbatim>\<open>null\<close>.
\<close>

fun inserted_id :: "oid \<Rightarrow> oid option \<Rightarrow> oid" where
  "inserted_id newId (Some i) = i"
| "inserted_id newId None = newId"

section \<open>Route handlers\<close>

definition send :: "nat \<Rightarrow> payload \<Rightarrow> response" where
  "send st p = \<lparr>http_status = st, body = p\<rparr>"

text \<open>
  \<^verbatim>\<open>POST /api/users/register\<close>. The insert fails on the first unique index that
  already holds the new document's value: the index of \<^verbatim>\<open>_id\<close>, then those of
  the schema in its order.
\<close>

definition register :: "oid \<Rightarrow> user_body \<Rightarrow> store \<Rightarrow> response \<times> store" where
  "register newId b db =
     (case newUser newId b of
        Inl e \<Rightarrow> (send 400 (ErrorBody e), db)
      | Inr u \<Rightarrow>
          if Some (inserted_id newId (user_id u)) \<in> set (map user_id (users db))
          then (send 400 (ErrorBody (DuplicateId (inserted_id newId (user_id u)))), db)
          else if username u \<in> set (map username (users db))
          then (send 400 (ErrorBody (DuplicateKey ''username'' (username u))), db)
          else if email u \<in> set (map email (users db))
          then (send 400 (ErrorBody (DuplicateKey ''email'' (email u))), db)
          else (send 201 (UserBody u),
                db\<lparr>users := users db @ [u\<lparr>user_id := Some (inserted_id newId (user_id u))\<rparr>]\<rparr>))"

text \<open>\<^verbatim>\<open>POST /api/users/login\<close>: the handler reads nothing and sends a fixed text.\<close>

definition login :: "login_body \<Rightarrow> store \<Rightarrow> response \<times> store" where
  "login b db = (send 200 (TextBody ''Login logic to be implemented''), db)"

text \<open>
  \<^verbatim>\<open>POST /api/payments\<close>. The only unique index of the collection is that of
  \<^verbatim>\<open>_id\<close>; \<open>pos\<close> is the place the database gives the new document.
\<close>

definition createPayment ::
  "bool \<Rightarrow> oid \<Rightarrow> timestamp \<Rightarrow> nat \<Rightarrow> payment_body \<Rightarrow> store \<Rightarrow> response \<times> store" where
  "createPayment nullOk newId now pos b db =
     (case newPayment nullOk newId now b of
        Inl e \<Rightarrow> (send 400 (ErrorBody e), db)
      | Inr p \<Rightarrow>
          if Some (inserted_id newId (payment_id p)) \<in> set (map payment_id (payments db))
          then (send 400 (ErrorBody (DuplicateId (inserted_id newId (payment_id p)))), db)
          else (send 201 (PaymentBody p),
                db\<lparr>payments := insert_at pos
                  (p\<lparr>payment_id := Some (inserted_id newId (payment_id p))\<rparr>) (payments db)\<rparr>))"

text \<open>
  \<^verbatim>\<open>GET /api/payments/user/:userId\<close>. The argument is the route parameter cast to
  an \<^verbatim>\<open>ObjectId\<close> for the query filter, \<open>None\<close> when the string is no identifier;
  the query then throws and the handler answers 400. The query has no sort.
\<close>

definition listPaymentsForUser :: "oid option \<Rightarrow> store \<Rightarrow> response" where
  "listPaymentsForUser param db =
     (case param of
        None \<Rightarrow> send 400 (ErrorBody (CastError ''userId''))
      | Some u \<Rightarrow> send 200 (PaymentsBody (filter (\<lambda>p. userId p = Some u) (payments db))))"

section \<open>Sequences of requests\<close>

text \<open>
  A request with what its handler takes from the environment: the generated
  identifier, the clock, the place of the insert.
\<close>

datatype request =
    Register oid user_body
  | Login login_body
  | CreatePayment oid timestamp nat payment_body
  | ListPayments "oid option"

fun handle :: "bool \<Rightarrow> request \<Rightarrow> store \<Rightarrow> response \<times> store" where
  "handle nullOk (Register newId b) db = register newId b db"
| "handle nullOk (Login b) db = login b db"
| "handle nullOk (CreatePayment newId now pos b) db = createPayment nullOk newId now pos b db"
| "handle nullOk (ListPayments param) db = (listPaymentsForUser param db, db)"

fun run :: "bool \<Rightarrow> request list \<Rightarrow> store \<Rightarrow> store" where
  "run nullOk [] db = db"
| "run nullOk (r # rs) db = run nullOk rs (snd (handle nullOk r db))"

section \<open>Facts about validation and the collections\<close>

lemma required_string_Nil: "required_string path f = [] \<longleftrightarrow> (\<exists>s. f = Given s \<and> s \<noteq> [])"
  by (cases f) auto

lemma required_path_Nil: "required_path path f = [] \<longleftrightarrow> (\<exists>v. f = Given v)"
  by (cases f) auto

lemma optional_path_Nil: "optional_path path f = [] \<longleftrightarrow> f \<noteq> Uncastable"
  by (cases f) auto

lemma enum_path_Nil:
  "enum_path nullOk path vals f = [] \<longleftrightarrow>
     f = Absent \<or> f = Null \<and> nullOk \<or> (\<exists>s. f = Given s \<and> s \<in> set vals)"
  by (cases f) auto

lemma validatePayment_Nil:
  "validatePayment nullOk b = [] \<longleftrightarrow>
     req_payment_id b \<noteq> Uncastable \<and>
     req_userId b \<noteq> Uncastable \<and>
     (\<exists>a. req_amount b = Given a) \<and>
     (\<exists>c. req_currency b = Given c \<and> c \<noteq> []) \<and>
     (req_status b = Absent \<or> req_status b = Null \<and> nullOk \<or>
      (\<exists>s. req_status b = Given s \<and> s \<in> set status_enum)) \<and>
     req_createdAt b \<noteq> Uncastable"
  by (simp add: validatePayment_def required_string_Nil required_path_Nil optional_path_Nil
      enum_path_Nil)

lemma validateUser_Nil:
  "validateUser b = [] \<longleftrightarrow>
     req_user_id b \<noteq> Uncastable \<and>
     (\<exists>un. req_username b = Given un \<and> un \<noteq> []) \<and>
     (\<exists>em. req_email b = Given em \<and> em \<noteq> []) \<and>
     (\<exists>pw. req_password b = Given pw \<and> pw \<noteq> [])"
  by (simp add: validateUser_def required_string_Nil optional_path_Nil)

lemma with_default_id:
  "f = Absent \<and> i = newId \<or> f = Given i \<Longrightarrow> with_default newId f = Some i"
  by auto

lemma newUser_valid:
  assumes "validateUser b = []"
    and "req_username b = Given un" "req_email b = Given em" "req_password b = Given pw"
  shows "newUser newId b =
     Inr \<lparr>user_id = with_default newId (req_user_id b),
          username = un, email = em, password = pw\<rparr>"
  using assms by (simp add: newUser_def)

lemma newPayment_invalid:
  "validatePayment nullOk b \<noteq> [] \<Longrightarrow>
     newPayment nullOk newId now b = Inl (ValidationError (validatePayment nullOk b))"
  by (simp add: newPayment_def split: field.splits)

lemma newPayment_valid:
  assumes "validatePayment nullOk b = []"
  shows "\<exists>a c. req_amount b = Given a \<and> req_currency b = Given c \<and>
     newPayment nullOk newId now b =
       Inr \<lparr>payment_id = with_default newId (req_payment_id b),
            userId = without_default (req_userId b),
            amount = a, currency = c,
            status = with_default ''pending'' (req_status b),
            createdAt = with_default now (req_createdAt b)\<rparr>"
proof -
  from assms obtain a c where "req_amount b = Given a" "req_currency b = Given c"
    by (auto simp: validatePayment_Nil)
  with assms show ?thesis by (simp add: newPayment_def)
qed

lemma newPayment_Inr:
  assumes "newPayment nullOk newId now b = Inr p"
  shows "validatePayment nullOk b = []"
  using assms newPayment_invalid [of nullOk b newId now]
  by (cases "validatePayment nullOk b = []") auto

lemma newPayment_status:
  assumes "newPayment nullOk newId now b = Inr p"
  shows "status p \<in> set (map Some status_enum) \<or> nullOk \<and> status p = None"
proof -
  have v: "validatePayment nullOk b = []"
    using assms by (rule newPayment_Inr)
  from newPayment_valid [OF v, of newId now] assms
  have "status p = with_default ''pending'' (req_status b)"
    by auto
  with v show ?thesis
    by (auto simp: validatePayment_Nil status_enum_def)
qed

lemma set_insert_at: "set (insert_at pos x xs) = insert x (set xs)"
proof -
  have "set (take pos xs) \<union> set (drop pos xs) = set xs"
    by (metis append_take_drop_id set_append)
  then show ?thesis by (auto simp: insert_at_def)
qed


lemma createPayment_invalid:
  assumes "validatePayment nullOk b \<noteq> []"
  shows "createPayment nullOk newId now pos b db =
           (send 400 (ErrorBody (ValidationError (validatePayment nullOk b))), db)"
  using newPayment_invalid [OF assms, of newId now] by (simp add: createPayment_def)

lemma createPayment_fresh:
  assumes "validatePayment nullOk b = []"
    and "req_payment_id b = Absent \<and> i = newId \<or> req_payment_id b = Given i"
    and "Some i \<notin> set (map payment_id (payments db))"
  shows "\<exists>a c. req_amount b = Given a \<and> req_currency b = Given c \<and>
     createPayment nullOk newId now pos b db =
       (send 201 (PaymentBody \<lparr>payment_id = Some i,
            userId = without_default (req_userId b),
            amount = a, currency = c,
            status = with_default ''pending'' (req_status b),
            createdAt = with_default now (req_createdAt b)\<rparr>),
        db\<lparr>payments := insert_at pos \<lparr>payment_id = Some i,
            userId = without_default (req_userId b),
            amount = a, currency = c,
            status = with_default ''pending'' (req_status b),
            createdAt = with_default now (req_createdAt b)\<rparr> (payments db)\<rparr>)"
proof -
  from with_default_id [OF assms(2)]
  have i: "with_default newId (req_payment_id b) = Some i" .
  from newPayment_valid [OF assms(1), of newId now] obtain a c where
    "req_amount b = Given a" "req_currency b = Given c"
    "newPayment nullOk newId now b =
       Inr \<lparr>payment_id = with_default newId (req_payment_id b),
            userId = without_default (req_userId b),
            amount = a, currency = c,
            status = with_default ''pending'' (req_status b),
            createdAt = with_default now (req_createdAt b)\<rparr>"
    by blast
  with i assms(3) show ?thesis
    by (simp add: createPayment_def)
qed

lemma createPayment_duplicate:
  assumes "validatePayment nullOk b = []"
    and "req_payment_id b = Absent \<and> i = newId \<or> req_payment_id b = Given i"
    and "Some i \<in> set (map payment_id (payments db))"
  shows "createPayment nullOk newId now pos b db = (send 400 (ErrorBody (DuplicateId i)), db)"
proof -
  from with_default_id [OF assms(2)]
  have i: "with_default newId (req_payment_id b) = Some i" .
  from newPayment_valid [OF assms(1), of newId now] obtain a c where
    "newPayment nullOk newId now b =
       Inr \<lparr>payment_id = with_default newId (req_payment_id b),
            userId = without_default (req_userId b),
            amount = a, currency = c,
            status = with_default ''pending'' (req_status b),
            createdAt = with_default now (req_createdAt b)\<rparr>"
    by blast
  with i assms(3) show ?thesis
    by (simp add: createPayment_def)
qed

lemma createPayment_status:
  "http_status (fst (createPayment nullOk newId now pos b db)) = 201 \<or>
   http_status (fst (createPayment nullOk newId now pos b db)) = 400"
  by (simp add: createPayment_def send_def split: sum.splits)

lemma createPayment_201:
  assumes "createPayment nullOk newId now pos b db = (res, db')" "http_status res = 201"
  shows "\<exists>p. newPayment nullOk newId now b = Inr p \<and> res = send 201 (PaymentBody p) \<and>
           Some (inserted_id newId (payment_id p)) \<notin> set (map payment_id (payments db)) \<and>
           db' = db\<lparr>payments := insert_at pos
                  (p\<lparr>payment_id := Some (inserted_id newId (payment_id p))\<rparr>) (payments db)\<rparr>"
  using assms by (auto simp: createPayment_def send_def split: sum.splits if_splits)

lemma payments_createPayment:
  "payments (snd (createPayment nullOk newId now pos b db)) = payments db \<or>
   (\<exists>p. newPayment nullOk newId now b = Inr p \<and>
      payments (snd (createPayment nullOk newId now pos b db)) =
        insert_at pos (p\<lparr>payment_id := Some (inserted_id newId (payment_id p))\<rparr>) (payments db))"
proof (cases "newPayment nullOk newId now b")
  case (Inl e)
  then show ?thesis by (simp add: createPayment_def)
next
  case (Inr p)
  show ?thesis
  proof (cases "Some (inserted_id newId (payment_id p)) \<in> set (map payment_id (payments db))")
    case True
    with Inr show ?thesis by (simp add: createPayment_def)
  next
    case False
    with Inr show ?thesis by (simp add: createPayment_def)
  qed
qed

lemma payments_handle:
  "payments (snd (handle nullOk r db)) = payments db \<or>
   (\<exists>newId now pos b p. newPayment nullOk newId now b = Inr p \<and>
      payments (snd (handle nullOk r db)) =
        insert_at pos (p\<lparr>payment_id := Some (inserted_id newId (payment_id p))\<rparr>) (payments db))"
proof (cases r)
  case (CreatePayment newId now pos b)
  from payments_createPayment [of nullOk newId now pos b db] show ?thesis
    unfolding CreatePayment handle.simps by blast
qed (auto simp: register_def login_def split: sum.splits)

lemma payments_run_mono: "set (payments db) \<subseteq> set (payments (run nullOk rs db))"
proof (induction rs arbitrary: db)
  case Nil
  show ?case by simp
next
  case (Cons r rs)
  have "set (payments db) \<subseteq> set (payments (snd (handle nullOk r db)))"
    using payments_handle [of nullOk r db] by (auto simp: set_insert_at)
  also have "\<dots> \<subseteq> set (payments (run nullOk rs (snd (handle nullOk r db))))"
    by (rule Cons.IH)
  finally show ?case by simp
qed

lemma status_run:
  assumes "\<forall>p\<in>set (payments db). status p \<in> set (map Some status_enum) \<or> nullOk \<and> status p = None"
  shows "\<forall>p\<in>set (payments (run nullOk rs db)).
           status p \<in> set (map Some status_enum) \<or> nullOk \<and> status p = None"
  using assms
proof (induction rs arbitrary: db)
  case Nil
  then show ?case by simp
next
  case (Cons r rs)
  have "\<forall>p\<in>set (payments (snd (handle nullOk r db))).
          status p \<in> set (map Some status_enum) \<or> nullOk \<and> status p = None"
  proof -
    from payments_handle [of nullOk r db] show ?thesis
    proof
      assume "payments (snd (handle nullOk r db)) = payments db"
      with Cons.prems show ?thesis by simp
    next
      assume "\<exists>newId now pos b p. newPayment nullOk newId now b = Inr p \<and>
        payments (snd (handle nullOk r db)) =
          insert_at pos (p\<lparr>payment_id := Some (inserted_id newId (payment_id p))\<rparr>) (payments db)"
      then obtain newId now pos b p where p: "newPayment nullOk newId now b = Inr p"
        and eq: "payments (snd (handle nullOk r db)) =
          insert_at pos (p\<lparr>payment_id := Some (inserted_id newId (payment_id p))\<rparr>) (payments db)"
        by blast
      from newPayment_status [OF p] Cons.prems show ?thesis
        by (simp add: eq set_insert_at)
    qed
  qed
  from Cons.IH [OF this] show ?case by simp
qed


section \<open>Registration\<close>




section \<open>Login\<close>

text \<open>
  Claim C2, as the handler has it. For every login request the answer is the same
  fixed text with status 200, whatever the credentials and whatever the stored
  users, and the store is unchanged; so a wrong password for an existing user and an
  unknown \<^verbatim>\<open>usernameOrEmail\<close> get the same response (two requests \<open>b\<close>,
  \<open>b'\<close> on two stores \<open>db\<close>, \<open>db'\<close>), which is not an error.
\<close>

theorem login_fixed_response:
  "login b db = (send 200 (TextBody ''Login logic to be implemented''), db) \<and>
   fst (login b db) = fst (login b' db')"
  by (simp add: login_def)

text \<open>
  The claim as worded (both requests are answered \<^verbatim>\<open>Unauthorized\<close>, 401) fails:
  with \<^verbatim>\<open>alice\<close> stored, a wrong password for that user and a name nobody has are
  both answered 200.
\<close>

theorem login_wrong_password_not_unauthorized:
  "fst (login
      \<lparr>req_usernameOrEmail = Given ''alice'', req_login_password = Given ''wrong''\<rparr>
      \<lparr>users = [\<lparr>user_id = Some 1, username = ''alice'', email = ''alice@example.com'',
        password = ''hunter2''\<rparr>], payments = []\<rparr>) =
     send 200 (TextBody ''Login logic to be implemented'') \<and>
   fst (login
      \<lparr>req_usernameOrEmail = Given ''nobody'', req_login_password = Given ''hunter2''\<rparr>
      \<lparr>users = [\<lparr>user_id = Some 1, username = ''alice'', email = ''alice@example.com'',
        password = ''hunter2''\<rparr>], payments = []\<rparr>) =
     send 200 (TextBody ''Login logic to be implemented'') \<and>
   http_status (send 200 (TextBody ''Login logic to be implemented'')) \<noteq> 401"
  by (simp add: login_def send_def)

section \<open>Payments of unknown users\<close>

text \<open>
  Claim C3, as the handler has it. \<open>createPayment\<close> never looks at the user
  collection. With a \<^verbatim>\<open>userId\<close> that is the identifier of no stored user: a body
  that passes the schema's validators and whose \<^verbatim>\<open>_id\<close>, missing (then the
  generated one) or an identifier, is no stored payment's is answered 201 and its
  payment, carrying that \<^verbatim>\<open>userId\<close>, is added to the collection; when that
  \<^verbatim>\<open>_id\<close> is a stored payment's the answer is 400 with the duplicate-key error,
  and when the body fails the validators it is 400 with the validation error, nothing
  being inserted either time. No answer, to any body, is \<^verbatim>\<open>NotFound\<close>.
\<close>

theorem createPayment_unknown_userId:
  assumes "req_userId b = Given u" "Some u \<notin> set (map user_id (users db))"
  shows "(validatePayment nullOk b = [] \<and>
          (req_payment_id b = Absent \<and> i = newId \<or> req_payment_id b = Given i) \<and>
          Some i \<notin> set (map payment_id (payments db)) \<longrightarrow>
           (\<exists>p. createPayment nullOk newId now pos b db =
              (send 201 (PaymentBody p), db\<lparr>payments := insert_at pos p (payments db)\<rparr>) \<and>
              userId p = Some u)) \<and>
         (validatePayment nullOk b = [] \<and>
          (req_payment_id b = Absent \<and> i = newId \<or> req_payment_id b = Given i) \<and>
          Some i \<in> set (map payment_id (payments db)) \<longrightarrow>
           createPayment nullOk newId now pos b db =
             (send 400 (ErrorBody (DuplicateId i)), db)) \<and>
         (validatePayment nullOk b \<noteq> [] \<longrightarrow>
           createPayment nullOk newId now pos b db =
             (send 400 (ErrorBody (ValidationError (validatePayment nullOk b))), db)) \<and>
         http_status (fst (createPayment nullOk newId now pos b db)) \<noteq> 404"
proof (intro conjI impI)
  assume "validatePayment nullOk b = [] \<and>
      (req_payment_id b = Absent \<and> i = newId \<or> req_payment_id b = Given i) \<and>
      Some i \<notin> set (map payment_id (payments db))"
  then have v: "validatePayment nullOk b = []"
    and i: "req_payment_id b = Absent \<and> i = newId \<or> req_payment_id b = Given i"
    and f: "Some i \<notin> set (map payment_id (payments db))" by simp_all
  from createPayment_fresh [OF v i f, of now pos] assms(1)
  show "\<exists>p. createPayment nullOk newId now pos b db =
              (send 201 (PaymentBody p), db\<lparr>payments := insert_at pos p (payments db)\<rparr>) \<and>
              userId p = Some u"
    by auto
next
  assume "validatePayment nullOk b = [] \<and>
      (req_payment_id b = Absent \<and> i = newId \<or> req_payment_id b = Given i) \<and>
      Some i \<in> set (map payment_id (payments db))"
  then have v: "validatePayment nullOk b = []"
    and i: "req_payment_id b = Absent \<and> i = newId \<or> req_payment_id b = Given i"
    and d: "Some i \<in> set (map payment_id (payments db))" by simp_all
  from createPayment_duplicate [OF v i d]
  show "createPayment nullOk newId now pos b db = (send 400 (ErrorBody (DuplicateId i)), db)" .
next
  assume "validatePayment nullOk b \<noteq> []"
  then show "createPayment nullOk newId now pos b db =
             (send 400 (ErrorBody (ValidationError (validatePayment nullOk b))), db)"
    by (rule createPayment_invalid)
next
  from createPayment_status [of nullOk newId now pos b db]
  show "http_status (fst (createPayment nullOk newId now pos b db)) \<noteq> 404"
    by auto
qed

theorem createPayment_unknown_userId_witness:
  "createPayment False 1 1000 0 \<lparr>req_payment_id = Absent, req_userId = Given 42,
      req_amount = Given 10, req_currency = Given ''USD'', req_status = Absent,
      req_createdAt = Absent\<rparr> empty_store =
     (send 201 (PaymentBody \<lparr>payment_id = Some 1, userId = Some 42, amount = 10,
        currency = ''USD'', status = Some ''pending'', createdAt = Some 1000\<rparr>),
      \<lparr>users = [], payments = [\<lparr>payment_id = Some 1, userId = Some 42, amount = 10,
        currency = ''USD'', status = Some ''pending'', createdAt = Some 1000\<rparr>]\<rparr>) \<and>
   createPayment False 2 2000 0 \<lparr>req_payment_id = Given 1, req_userId = Given 42,
      req_amount = Given 10, req_currency = Given ''USD'', req_status = Absent,
      req_createdAt = Absent\<rparr>
      \<lparr>users = [], payments = [\<lparr>payment_id = Some 1, userId = Some 42, amount = 10,
        currency = ''USD'', status = Some ''pending'', createdAt = Some 1000\<rparr>]\<rparr> =
     (send 400 (ErrorBody (DuplicateId 1)),
      \<lparr>users = [], payments = [\<lparr>payment_id = Some 1, userId = Some 42, amount = 10,
        currency = ''USD'', status = Some ''pending'', createdAt = Some 1000\<rparr>]\<rparr>) \<and>
   createPayment False 1 1000 0 \<lparr>req_payment_id = Absent, req_userId = Given 42,
      req_amount = Absent, req_currency = Given ''USD'', req_status = Absent,
      req_createdAt = Absent\<rparr> empty_store =
     (send 400 (ErrorBody (ValidationError [(''amount'', Required)])), empty_store)"
  using createPayment_unknown_userId [of "\<lparr>req_payment_id = Absent, req_userId = Given 42,
      req_amount = Given 10, req_currency = Given ''USD'', req_status = Absent,
      req_createdAt = Absent\<rparr>" 42 empty_store False 1 1 1000 0]
    createPayment_unknown_userId [of "\<lparr>req_payment_id = Given 1, req_userId = Given 42,
      req_amount = Given 10, req_currency = Given ''USD'', req_status = Absent,
      req_createdAt = Absent\<rparr>" 42
      "\<lparr>users = [], payments = [\<lparr>payment_id = Some 1, userId = Some 42, amount = 10,
        currency = ''USD'', status = Some ''pending'', createdAt = Some 1000\<rparr>]\<rparr>"
      False 1 2 2000 0]
    createPayment_unknown_userId [of "\<lparr>req_payment_id = Absent, req_userId = Given 42,
      req_amount = Absent, req_currency = Given ''USD'', req_status = Absent,
      req_createdAt = Absent\<rparr>" 42 empty_store False 1 1 1000 0]
  by (simp add: createPayment_def newPayment_def validatePayment_def status_enum_def
      empty_store_def send_def insert_at_def)

text \<open>
  The claim as worded (an unknown \<^verbatim>\<open>userId\<close> is answered \<^verbatim>\<open>NotFound\<close> and
  nothing is inserted) fails: the only stored user has identifier 1, and a payment
  for user 42 is answered 201 and inserted.
\<close>

theorem unknown_userId_payment_inserted:
  "Some 42 \<notin> set (map user_id [\<lparr>user_id = Some 1, username = ''alice'',
        email = ''alice@example.com'', password = ''hunter2''\<rparr>]) \<and>
   createPayment False 1 1000 0 \<lparr>req_payment_id = Absent, req_userId = Given 42,
      req_amount = Given 10, req_currency = Given ''USD'', req_status = Absent,
      req_createdAt = Absent\<rparr>
      \<lparr>users = [\<lparr>user_id = Some 1, username = ''alice'', email = ''alice@example.com'',
        password = ''hunter2''\<rparr>], payments = []\<rparr> =
     (send 201 (PaymentBody \<lparr>payment_id = Some 1, userId = Some 42, amount = 10,
        currency = ''USD'', status = Some ''pending'', createdAt = Some 1000\<rparr>),
      \<lparr>users = [\<lparr>user_id = Some 1, username = ''alice'', email = ''alice@example.com'',
        password = ''hunter2''\<rparr>],
       payments = [\<lparr>payment_id = Some 1, userId = Some 42, amount = 10,
        currency = ''USD'', status = Some ''pending'', createdAt = Some 1000\<rparr>]\<rparr>)"
  by (simp add: createPayment_def newPayment_def validatePayment_def status_enum_def
      insert_at_def)

section \<open>Payments with a non-positive amount\<close>

text \<open>
  Claim C4, as the handler has it. The schema requires \<^verbatim>\<open>amount\<close> to be a
  number and puts no bound on it: every body that passes the validators, whose amount
  is \<open>a \<le> 0\<close> and whose \<^verbatim>\<open>_id\<close>, missing (then the generated one) or an
  identifier, is no stored payment's, is answered 201, and the payment with that
  amount is added to the collection.
\<close>

theorem createPayment_nonpositive_amount:
  assumes "validatePayment nullOk b = []" "req_amount b = Given a" "a \<le> 0"
    and "req_payment_id b = Absent \<and> i = newId \<or> req_payment_id b = Given i"
    and "Some i \<notin> set (map payment_id (payments db))"
  shows "\<exists>p. createPayment nullOk newId now pos b db =
           (send 201 (PaymentBody p), db\<lparr>payments := insert_at pos p (payments db)\<rparr>) \<and>
         amount p = a"
  using createPayment_fresh [OF assms(1,4,5), of now pos] assms(2)
  by auto

theorem createPayment_nonpositive_amount_witness:
  "validatePayment False \<lparr>req_payment_id = Absent, req_userId = Given 7, req_amount = Given 0,
      req_currency = Given ''EUR'', req_status = Absent, req_createdAt = Absent\<rparr> = [] \<and>
   (0::rat) \<le> 0 \<and>
   createPayment False 3 2000 0 \<lparr>req_payment_id = Absent, req_userId = Given 7,
      req_amount = Given 0, req_currency = Given ''EUR'', req_status = Absent,
      req_createdAt = Absent\<rparr>
      \<lparr>users = [\<lparr>user_id = Some 7, username = ''alice'', email = ''alice@example.com'',
        password = ''hunter2''\<rparr>], payments = []\<rparr> =
     (send 201 (PaymentBody \<lparr>payment_id = Some 3, userId = Some 7, amount = 0,
        currency = ''EUR'', status = Some ''pending'', createdAt = Some 2000\<rparr>),
      \<lparr>users = [\<lparr>user_id = Some 7, username = ''alice'', email = ''alice@example.com'',
        password = ''hunter2''\<rparr>],
       payments = [\<lparr>payment_id = Some 3, userId = Some 7, amount = 0,
        currency = ''EUR'', status = Some ''pending'', createdAt = Some 2000\<rparr>]\<rparr>)"
  using createPayment_nonpositive_amount [of False "\<lparr>req_payment_id = Absent,
      req_userId = Given 7, req_amount = Given 0, req_currency = Given ''EUR'',
      req_status = Absent, req_createdAt = Absent\<rparr>" 0 3 3
      "\<lparr>users = [\<lparr>user_id = Some 7, username = ''alice'', email = ''alice@example.com'',
        password = ''hunter2''\<rparr>], payments = []\<rparr>" 2000 0]
  by (simp add: createPayment_def newPayment_def validatePayment_def status_enum_def send_def
      insert_at_def)

text \<open>
  The claim as worded (\<^verbatim>\<open>amount <= 0\<close> is answered \<^verbatim>\<open>ValidationError\<close> and no
  record is created) fails at the specification's own example: amount \<open>-5\<close>,
  currency \<^verbatim>\<open>USD\<close> and the identifier of a stored user are answered 201 and the
  record is created.
\<close>

theorem createPayment_negative_amount_accepted:
  "createPayment False 3 2000 0 \<lparr>req_payment_id = Absent, req_userId = Given 7,
      req_amount = Given (- 5), req_currency = Given ''USD'', req_status = Absent,
      req_createdAt = Absent\<rparr>
      \<lparr>users = [\<lparr>user_id = Some 7, username = ''alice'', email = ''alice@example.com'',
        password = ''hunter2''\<rparr>], payments = []\<rparr> =
     (send 201 (PaymentBody \<lparr>payment_id = Some 3, userId = Some 7, amount = - 5,
        currency = ''USD'', status = Some ''pending'', createdAt = Some 2000\<rparr>),
      \<lparr>users = [\<lparr>user_id = Some 7, username = ''alice'', email = ''alice@example.com'',
        password = ''hunter2''\<rparr>],
       payments = [\<lparr>payment_id = Some 3, userId = Some 7, amount = - 5,
        currency = ''USD'', status = Some ''pending'', createdAt = Some 2000\<rparr>]\<rparr>)"
  by (simp add: createPayment_def newPayment_def validatePayment_def status_enum_def
      insert_at_def)

section \<open>Listing a user's payments\<close>




section \<open>Listing for users without payments\<close>

text \<open>
  Claim C6, as the handler has it. For a well-formed \<^verbatim>\<open>userId\<close> that owns no
  stored payment the listing is the empty sequence with status 200, whether or not
  a user with that identifier exists. The handler never answers 404; its only
  error is 400, exactly when the route parameter is no identifier.
\<close>

theorem listPaymentsForUser_never_not_found:
  assumes "\<forall>p\<in>set (payments db). userId p \<noteq> Some u"
  shows "listPaymentsForUser (Some u) db = send 200 (PaymentsBody []) \<and>
         http_status (listPaymentsForUser param db) \<noteq> 404 \<and>
         (http_status (listPaymentsForUser param db) = 400 \<longleftrightarrow> param = None)"
proof -
  from assms have "filter (\<lambda>p. userId p = Some u) (payments db) = []"
    by (simp add: filter_empty_conv)
  then show ?thesis
    by (simp add: listPaymentsForUser_def send_def split: option.splits)
qed

theorem listPaymentsForUser_never_not_found_witness:
  "listPaymentsForUser (Some 1)
     \<lparr>users = [\<lparr>user_id = Some 1, username = ''alice'', email = ''alice@example.com'',
        password = ''hunter2''\<rparr>],
      payments = [\<lparr>payment_id = Some 5, userId = Some 2, amount = 10,
        currency = ''USD'', status = Some ''pending'', createdAt = Some 1000\<rparr>]\<rparr> =
     send 200 (PaymentsBody []) \<and>
   http_status (listPaymentsForUser None
     \<lparr>users = [\<lparr>user_id = Some 1, username = ''alice'', email = ''alice@example.com'',
        password = ''hunter2''\<rparr>],
      payments = [\<lparr>payment_id = Some 5, userId = Some 2, amount = 10,
        currency = ''USD'', status = Some ''pending'', createdAt = Some 1000\<rparr>]\<rparr>) = 400"
  using listPaymentsForUser_never_not_found [of
     "\<lparr>users = [\<lparr>user_id = Some 1, username = ''alice'', email = ''alice@example.com'',
        password = ''hunter2''\<rparr>],
      payments = [\<lparr>payment_id = Some 5, userId = Some 2, amount = 10,
        currency = ''USD'', status = Some ''pending'', createdAt = Some 1000\<rparr>]\<rparr>" 1 None]
  by simp

text \<open>
  The claim as worded (404 exactly when the \<^verbatim>\<open>userId\<close> resolves to no user)
  fails: no stored user has identifier 42 and the listing for 42 is the empty
  sequence with status 200.
\<close>

theorem listPaymentsForUser_unknown_user_ok:
  "listPaymentsForUser (Some 42)
     \<lparr>users = [\<lparr>user_id = Some 1, username = ''alice'', email = ''alice@example.com'',
        password = ''hunter2''\<rparr>], payments = []\<rparr> = send 200 (PaymentsBody []) \<and>
   Some 42 \<notin> set (map user_id [\<lparr>user_id = Some 1, username = ''alice'',
        email = ''alice@example.com'', password = ''hunter2''\<rparr>])"
  by (simp add: listPaymentsForUser_def)

section \<open>Registration with a taken username or email\<close>

text \<open>
  Claim C7, as the handler has it. When a body that passes the validators has a
  username or an email that a stored user already holds, \<open>register\<close> answers
  400 with the duplicate-key error of a unique index, which names a path that
  collided and the colliding value, and the store is unchanged. The path is
  \<^verbatim>\<open>username\<close> or \<^verbatim>\<open>email\<close> unless the identifier \<open>i\<close> of the document
  (the body's \<^verbatim>\<open>_id\<close>, or the generated one when the body has none) is a stored
  user's as well; then it is \<^verbatim>\<open>_id\<close>.
\<close>

theorem register_duplicate_key:
  assumes "validateUser b = []" "req_username b = Given un" "req_email b = Given em"
    and "un \<in> set (map username (users db)) \<or> em \<in> set (map email (users db))"
    and "req_user_id b = Absent \<and> i = newId \<or> req_user_id b = Given i"
  shows "(\<exists>e. register newId b db = (send 400 (ErrorBody e), db) \<and>
           (e = DuplicateId i \<and> Some i \<in> set (map user_id (users db)) \<or>
            e = DuplicateKey ''username'' un \<and> un \<in> set (map username (users db)) \<or>
            e = DuplicateKey ''email'' em \<and> em \<in> set (map email (users db)))) \<and>
         (Some i \<notin> set (map user_id (users db)) \<longrightarrow>
           (\<exists>path v. register newId b db = (send 400 (ErrorBody (DuplicateKey path v)), db) \<and>
             (path = ''username'' \<and> v = un \<and> un \<in> set (map username (users db)) \<or>
              path = ''email'' \<and> v = em \<and> em \<in> set (map email (users db)))))"
proof -
  from assms(1-3) obtain pw where "req_password b = Given pw"
    by (auto simp: validateUser_Nil)
  from newUser_valid [OF assms(1,2,3) this, of newId] with_default_id [OF assms(5)]
  have u: "newUser newId b = Inr \<lparr>user_id = Some i, username = un, email = em, password = pw\<rparr>"
    by simp
  show ?thesis
  proof (cases "Some i \<in> set (map user_id (users db))")
    case True
    with u have "register newId b db = (send 400 (ErrorBody (DuplicateId i)), db)"
      by (simp add: register_def)
    with True show ?thesis by blast
  next
    case False
    show ?thesis
    proof (cases "un \<in> set (map username (users db))")
      case True
      with u False
      have "register newId b db = (send 400 (ErrorBody (DuplicateKey ''username'' un)), db)"
        by (simp add: register_def)
      with True show ?thesis by blast
    next
      case no_un: False
      with assms(4) have em: "em \<in> set (map email (users db))" by simp
      with u False no_un
      have "register newId b db = (send 400 (ErrorBody (DuplicateKey ''email'' em)), db)"
        by (simp add: register_def)
      with em show ?thesis by blast
    qed
  qed
qed

theorem register_duplicate_key_witness:
  "register 2 \<lparr>req_user_id = Absent, req_username = Given ''bob'',
       req_email = Given ''alice@example.com'', req_password = Given ''letmein''\<rparr>
     \<lparr>users = [\<lparr>user_id = Some 1, username = ''alice'', email = ''alice@example.com'',
        password = ''hunter2''\<rparr>], payments = []\<rparr> =
   (send 400 (ErrorBody (DuplicateKey ''email'' ''alice@example.com'')),
    \<lparr>users = [\<lparr>user_id = Some 1, username = ''alice'', email = ''alice@example.com'',
        password = ''hunter2''\<rparr>], payments = []\<rparr>) \<and>
   register 2 \<lparr>req_user_id = Given 1, req_username = Given ''alice'',
       req_email = Given ''other@example.com'', req_password = Given ''letmein''\<rparr>
     \<lparr>users = [\<lparr>user_id = Some 1, username = ''alice'', email = ''alice@example.com'',
        password = ''hunter2''\<rparr>], payments = []\<rparr> =
   (send 400 (ErrorBody (DuplicateId 1)),
    \<lparr>users = [\<lparr>user_id = Some 1, username = ''alice'', email = ''alice@example.com'',
        password = ''hunter2''\<rparr>], payments = []\<rparr>)"
  using register_duplicate_key [of
      "\<lparr>req_user_id = Absent, req_username = Given ''bob'',
        req_email = Given ''alice@example.com'', req_password = Given ''letmein''\<rparr>"
      "''bob''" "''alice@example.com''"
      "\<lparr>users = [\<lparr>user_id = Some 1, username = ''alice'', email = ''alice@example.com'',
        password = ''hunter2''\<rparr>], payments = []\<rparr>" 2 2]
    register_duplicate_key [of
      "\<lparr>req_user_id = Given 1, req_username = Given ''alice'',
        req_email = Given ''other@example.com'', req_password = Given ''letmein''\<rparr>"
      "''alice''" "''other@example.com''"
      "\<lparr>users = [\<lparr>user_id = Some 1, username = ''alice'', email = ''alice@example.com'',
        password = ''hunter2''\<rparr>], payments = []\<rparr>" 1 2]
  by (simp add: register_def newUser_def validateUser_def send_def)

text \<open>
  The claim as worded (the answer is \<^verbatim>\<open>Conflict\<close>, status 409) fails:
  registering the username \<^verbatim>\<open>alice\<close> a second time is answered 400.
\<close>

theorem register_duplicate_username_400:
  "register 2 \<lparr>req_user_id = Absent, req_username = Given ''alice'',
       req_email = Given ''other@example.com'', req_password = Given ''letmein''\<rparr>
     \<lparr>users = [\<lparr>user_id = Some 1, username = ''alice'', email = ''alice@example.com'',
        password = ''hunter2''\<rparr>], payments = []\<rparr> =
   (send 400 (ErrorBody (DuplicateKey ''username'' ''alice'')),
    \<lparr>users = [\<lparr>user_id = Some 1, username = ''alice'', email = ''alice@example.com'',
        password = ''hunter2''\<rparr>], payments = []\<rparr>) \<and>
   http_status (send 400 (ErrorBody (DuplicateKey ''username'' ''alice''))) \<noteq> 409"
  by (simp add: register_def newUser_def validateUser_def send_def)

section \<open>Round trip of a created payment\<close>

text \<open>
  Claim C8, as the handlers have it. Every payment record returned by a successful
  \<open>createPayment\<close> whose body has a \<^verbatim>\<open>userId\<close>, and an \<^verbatim>\<open>_id\<close> that is not
  \<^verbatim>\<open>null\<close>, is an element, unchanged, of the listing for that \<^verbatim>\<open>userId\<close>
  after any further requests \<open>rs\<close>. Its identifier is the body's or the generated
  one, its amount and currency are the body's, its status is the body's or
  \<^verbatim>\<open>pending\<close> when the body has none, and its \<^verbatim>\<open>createdAt\<close> is the body's
  or the time of creation when the body has none.
\<close>

theorem createPayment_roundtrip:
  assumes "createPayment nullOk newId now pos b db = (res, db')" "http_status res = 201"
    and "req_userId b = Given u" and "req_payment_id b \<noteq> Null"
  shows "\<exists>p ps. body res = PaymentBody p \<and>
           listPaymentsForUser (Some u) (run nullOk rs db') = send 200 (PaymentsBody ps) \<and>
           p \<in> set ps \<and>
           (req_payment_id b = Absent \<and> payment_id p = Some newId \<or>
            (\<exists>i. req_payment_id b = Given i \<and> payment_id p = Some i)) \<and>
           req_amount b = Given (amount p) \<and>
           req_currency b = Given (currency p) \<and>
           (req_status b = Absent \<and> status p = Some ''pending'' \<or>
            req_status b = Null \<and> status p = None \<or>
            (\<exists>s. req_status b = Given s \<and> status p = Some s)) \<and>
           (req_createdAt b = Absent \<and> createdAt p = Some now \<or>
            req_createdAt b = Null \<and> createdAt p = None \<or>
            (\<exists>t. req_createdAt b = Given t \<and> createdAt p = Some t))"
proof -
  from createPayment_201 [OF assms(1,2)] obtain p where
    p: "newPayment nullOk newId now b = Inr p" and res: "res = send 201 (PaymentBody p)"
    and db': "db' = db\<lparr>payments := insert_at pos
        (p\<lparr>payment_id := Some (inserted_id newId (payment_id p))\<rparr>) (payments db)\<rparr>"
    by blast
  have v: "validatePayment nullOk b = []"
    using p by (rule newPayment_Inr)
  from newPayment_valid [OF v, of newId now] p obtain a c where
    a: "req_amount b = Given a" and c: "req_currency b = Given c" and
    eq: "p = \<lparr>payment_id = with_default newId (req_payment_id b),
            userId = without_default (req_userId b),
            amount = a, currency = c,
            status = with_default ''pending'' (req_status b),
            createdAt = with_default now (req_createdAt b)\<rparr>"
    by auto
  have id: "req_payment_id b = Absent \<and> payment_id p = Some newId \<or>
      (\<exists>i. req_payment_id b = Given i \<and> payment_id p = Some i)"
    using v assms(4) by (cases "req_payment_id b") (auto simp: eq validatePayment_Nil)
  then have "p\<lparr>payment_id := Some (inserted_id newId (payment_id p))\<rparr> = p"
    by auto
  with db' have "p \<in> set (payments db')"
    by (simp add: set_insert_at)
  with payments_run_mono [of db' nullOk rs] have "p \<in> set (payments (run nullOk rs db'))"
    by blast
  moreover have "userId p = Some u"
    using assms(3) by (simp add: eq)
  ultimately have mem: "p \<in> set (filter (\<lambda>p. userId p = Some u) (payments (run nullOk rs db')))"
    by simp
  have st: "req_status b = Absent \<and> status p = Some ''pending'' \<or>
      req_status b = Null \<and> status p = None \<or>
      (\<exists>s. req_status b = Given s \<and> status p = Some s)"
    using v by (cases "req_status b") (auto simp: eq validatePayment_Nil)
  have cr: "req_createdAt b = Absent \<and> createdAt p = Some now \<or>
      req_createdAt b = Null \<and> createdAt p = None \<or>
      (\<exists>t. req_createdAt b = Given t \<and> createdAt p = Some t)"
    using v by (cases "req_createdAt b") (auto simp: eq validatePayment_Nil)
  have "body res = PaymentBody p" by (simp add: res send_def)
  moreover have "listPaymentsForUser (Some u) (run nullOk rs db') =
      send 200 (PaymentsBody (filter (\<lambda>p. userId p = Some u) (payments (run nullOk rs db'))))"
    by (simp add: listPaymentsForUser_def)
  moreover have "req_amount b = Given (amount p)" "req_currency b = Given (currency p)"
    using a c by (simp_all add: eq)
  ultimately show ?thesis using mem id st cr by blast
qed

theorem createPayment_roundtrip_witness:
  "createPayment False 1 1000 0 \<lparr>req_payment_id = Absent, req_userId = Given 7,
      req_amount = Given 10, req_currency = Given ''USD'', req_status = Absent,
      req_createdAt = Absent\<rparr> empty_store =
     (send 201 (PaymentBody \<lparr>payment_id = Some 1, userId = Some 7, amount = 10,
        currency = ''USD'', status = Some ''pending'', createdAt = Some 1000\<rparr>),
      \<lparr>users = [], payments = [\<lparr>payment_id = Some 1, userId = Some 7, amount = 10,
        currency = ''USD'', status = Some ''pending'', createdAt = Some 1000\<rparr>]\<rparr>) \<and>
   http_status (send 201 (PaymentBody \<lparr>payment_id = Some 1, userId = Some 7, amount = 10,
        currency = ''USD'', status = Some ''pending'', createdAt = Some 1000\<rparr>)) = 201 \<and>
   listPaymentsForUser (Some 7)
     (run False [CreatePayment 2 2000 0 \<lparr>req_payment_id = Absent, req_userId = Given 8,
        req_amount = Given 20, req_currency = Given ''EUR'', req_status = Absent,
        req_createdAt = Absent\<rparr>]
       \<lparr>users = [], payments = [\<lparr>payment_id = Some 1, userId = Some 7, amount = 10,
        currency = ''USD'', status = Some ''pending'', createdAt = Some 1000\<rparr>]\<rparr>) =
     send 200 (PaymentsBody [\<lparr>payment_id = Some 1, userId = Some 7, amount = 10,
        currency = ''USD'', status = Some ''pending'', createdAt = Some 1000\<rparr>])"
proof -
  have c1: "createPayment False 1 1000 0 \<lparr>req_payment_id = Absent, req_userId = Given 7,
      req_amount = Given 10, req_currency = Given ''USD'', req_status = Absent,
      req_createdAt = Absent\<rparr> empty_store =
     (send 201 (PaymentBody \<lparr>payment_id = Some 1, userId = Some 7, amount = 10,
        currency = ''USD'', status = Some ''pending'', createdAt = Some 1000\<rparr>),
      \<lparr>users = [], payments = [\<lparr>payment_id = Some 1, userId = Some 7, amount = 10,
        currency = ''USD'', status = Some ''pending'', createdAt = Some 1000\<rparr>]\<rparr>)"
    by (simp add: createPayment_def newPayment_def validatePayment_def status_enum_def
        empty_store_def insert_at_def)
  have s: "http_status (send 201 (PaymentBody \<lparr>payment_id = Some 1, userId = Some 7,
        amount = 10, currency = ''USD'', status = Some ''pending'',
        createdAt = Some 1000\<rparr>)) = 201"
    by (simp add: send_def)
  from createPayment_roundtrip [OF c1 s, of 7
      "[CreatePayment 2 2000 0 \<lparr>req_payment_id = Absent, req_userId = Given 8,
        req_amount = Given 20, req_currency = Given ''EUR'', req_status = Absent,
        req_createdAt = Absent\<rparr>]"] c1 s
  show ?thesis
    by (simp add: listPaymentsForUser_def createPayment_def newPayment_def validatePayment_def
        status_enum_def insert_at_def)
qed

text \<open>
  The claim as worded (every returned record is retrievable for its user, with
  status \<^verbatim>\<open>pending\<close>) fails twice: a record created without a \<^verbatim>\<open>userId\<close> is
  in no user's listing, and a record created with the status \<^verbatim>\<open>completed\<close>
  is returned with that status.
\<close>

theorem createPayment_not_retrievable_or_not_pending:
  "createPayment False 1 1000 0 \<lparr>req_payment_id = Absent, req_userId = Absent,
      req_amount = Given 10, req_currency = Given ''USD'', req_status = Absent,
      req_createdAt = Absent\<rparr> empty_store =
     (send 201 (PaymentBody \<lparr>payment_id = Some 1, userId = None, amount = 10,
        currency = ''USD'', status = Some ''pending'', createdAt = Some 1000\<rparr>),
      \<lparr>users = [], payments = [\<lparr>payment_id = Some 1, userId = None, amount = 10,
        currency = ''USD'', status = Some ''pending'', createdAt = Some 1000\<rparr>]\<rparr>) \<and>
   listPaymentsForUser (Some 7)
      \<lparr>users = [], payments = [\<lparr>payment_id = Some 1, userId = None, amount = 10,
        currency = ''USD'', status = Some ''pending'', createdAt = Some 1000\<rparr>]\<rparr> =
     send 200 (PaymentsBody []) \<and>
   fst (createPayment False 2 2000 0 \<lparr>req_payment_id = Absent, req_userId = Given 7,
      req_amount = Given 20, req_currency = Given ''USD'', req_status = Given ''completed'',
      req_createdAt = Absent\<rparr> empty_store) =
     send 201 (PaymentBody \<lparr>payment_id = Some 2, userId = Some 7, amount = 20,
        currency = ''USD'', status = Some ''completed'', createdAt = Some 2000\<rparr>)"
  by (simp add: listPaymentsForUser_def createPayment_def newPayment_def validatePayment_def
      status_enum_def empty_store_def insert_at_def)

section \<open>The status of stored payments\<close>

text \<open>
  Claim C9, as the schema has it. After any sequence of requests on the empty
  database, the status of every stored payment is one of \<^verbatim>\<open>pending\<close>,
  \<^verbatim>\<open>completed\<close>, \<^verbatim>\<open>failed\<close>, or it is \<^verbatim>\<open>null\<close>, and \<^verbatim>\<open>null\<close> only
  where the library's \<^verbatim>\<open>enum\<close> validator lets \<^verbatim>\<open>null\<close> pass. A payment
  created from a body without a status is returned, and stored under its identifier,
  with the status \<^verbatim>\<open>pending\<close>.
\<close>

theorem payment_status_enumerated_or_null:
  "(\<forall>p\<in>set (payments (run nullOk rs empty_store)).
      status p \<in> set (map Some status_enum) \<or> nullOk \<and> status p = None) \<and>
   (createPayment nullOk newId now pos b db = (send 201 (PaymentBody p), db') \<longrightarrow>
    req_status b = Absent \<longrightarrow>
      status p = Some ''pending'' \<and>
      p\<lparr>payment_id := Some (inserted_id newId (payment_id p))\<rparr> \<in> set (payments db'))"
proof (intro conjI impI)
  show "\<forall>p\<in>set (payments (run nullOk rs empty_store)).
      status p \<in> set (map Some status_enum) \<or> nullOk \<and> status p = None"
    by (rule status_run) (simp add: empty_store_def)
next
  assume c: "createPayment nullOk newId now pos b db = (send 201 (PaymentBody p), db')"
    and s: "req_status b = Absent"
  have "http_status (send 201 (PaymentBody p)) = 201" by (simp add: send_def)
  from createPayment_201 [OF c this] obtain q where
    q: "newPayment nullOk newId now b = Inr q" "send 201 (PaymentBody p) = send 201 (PaymentBody q)"
    "db' = db\<lparr>payments := insert_at pos
        (q\<lparr>payment_id := Some (inserted_id newId (payment_id q))\<rparr>) (payments db)\<rparr>"
    by blast
  from q(2) have qp: "q = p" by (simp add: send_def)
  with q(1) have p: "newPayment nullOk newId now b = Inr p" by simp
  from newPayment_valid [OF newPayment_Inr [OF p], of newId now] p s
  show "status p = Some ''pending''" by auto
  from q(3) qp
  show "p\<lparr>payment_id := Some (inserted_id newId (payment_id p))\<rparr> \<in> set (payments db')"
    by (simp add: set_insert_at)
qed

theorem payment_status_enumerated_or_null_witness:
  "payments (run False
     [CreatePayment 1 1000 0 \<lparr>req_payment_id = Absent, req_userId = Given 7,
        req_amount = Given 10, req_currency = Given ''USD'',
        req_status = Given ''completed'', req_createdAt = Absent\<rparr>,
      CreatePayment 2 2000 0 \<lparr>req_payment_id = Absent, req_userId = Given 7,
        req_amount = Given 20, req_currency = Given ''USD'',
        req_status = Given ''refunded'', req_createdAt = Absent\<rparr>,
      CreatePayment 3 3000 0 \<lparr>req_payment_id = Absent, req_userId = Given 7,
        req_amount = Given 30, req_currency = Given ''USD'',
        req_status = Null, req_createdAt = Absent\<rparr>,
      CreatePayment 4 4000 2 \<lparr>req_payment_id = Absent, req_userId = Given 7,
        req_amount = Given 40, req_currency = Given ''USD'',
        req_status = Absent, req_createdAt = Absent\<rparr>]
     empty_store) =
     [\<lparr>payment_id = Some 1, userId = Some 7, amount = 10, currency = ''USD'',
        status = Some ''completed'', createdAt = Some 1000\<rparr>,
      \<lparr>payment_id = Some 4, userId = Some 7, amount = 40, currency = ''USD'',
        status = Some ''pending'', createdAt = Some 4000\<rparr>] \<and>
   Some ''completed'' \<in> set (map Some status_enum) \<and>
   Some ''pending'' \<in> set (map Some status_enum) \<and>
   createPayment False 4 4000 0 \<lparr>req_payment_id = Absent, req_userId = Given 7,
        req_amount = Given 40, req_currency = Given ''USD'',
        req_status = Absent, req_createdAt = Absent\<rparr> empty_store =
     (send 201 (PaymentBody \<lparr>payment_id = Some 4, userId = Some 7, amount = 40,
        currency = ''USD'', status = Some ''pending'', createdAt = Some 4000\<rparr>),
      \<lparr>users = [], payments = [\<lparr>payment_id = Some 4, userId = Some 7, amount = 40,
        currency = ''USD'', status = Some ''pending'', createdAt = Some 4000\<rparr>]\<rparr>)"
  using payment_status_enumerated_or_null [of False
     "[CreatePayment 1 1000 0 \<lparr>req_payment_id = Absent, req_userId = Given 7,
        req_amount = Given 10, req_currency = Given ''USD'',
        req_status = Given ''completed'', req_createdAt = Absent\<rparr>,
      CreatePayment 2 2000 0 \<lparr>req_payment_id = Absent, req_userId = Given 7,
        req_amount = Given 20, req_currency = Given ''USD'',
        req_status = Given ''refunded'', req_createdAt = Absent\<rparr>,
      CreatePayment 3 3000 0 \<lparr>req_payment_id = Absent, req_userId = Given 7,
        req_amount = Given 30, req_currency = Given ''USD'',
        req_status = Null, req_createdAt = Absent\<rparr>,
      CreatePayment 4 4000 2 \<lparr>req_payment_id = Absent, req_userId = Given 7,
        req_amount = Given 40, req_currency = Given ''USD'',
        req_status = Absent, req_createdAt = Absent\<rparr>]"
     4 4000 0 "\<lparr>req_payment_id = Absent, req_userId = Given 7,
        req_amount = Given 40, req_currency = Given ''USD'',
        req_status = Absent, req_createdAt = Absent\<rparr>" empty_store
     "\<lparr>payment_id = Some 4, userId = Some 7, amount = 40, currency = ''USD'',
        status = Some ''pending'', createdAt = Some 4000\<rparr>"
     "\<lparr>users = [], payments = [\<lparr>payment_id = Some 4, userId = Some 7, amount = 40,
        currency = ''USD'', status = Some ''pending'', createdAt = Some 4000\<rparr>]\<rparr>"]
  by (simp add: createPayment_def newPayment_def validatePayment_def status_enum_def
      empty_store_def insert_at_def)

text \<open>
  The claim as worded (every stored status is one of the three values) fails where
  the validator lets \<^verbatim>\<open>null\<close> pass: the default fills a missing key only, and a
  body with \<^verbatim>\<open>status: null\<close> is stored with that status.
\<close>

theorem null_status_stored:
  "payments (run True
     [CreatePayment 1 1000 0 \<lparr>req_payment_id = Absent, req_userId = Given 7,
        req_amount = Given 10, req_currency = Given ''USD'',
        req_status = Null, req_createdAt = Absent\<rparr>] empty_store) =
     [\<lparr>payment_id = Some 1, userId = Some 7, amount = 10, currency = ''USD'',
        status = None, createdAt = Some 1000\<rparr>] \<and>
   None \<notin> set (map Some status_enum)"
  by (simp add: createPayment_def newPayment_def validatePayment_def status_enum_def
      empty_store_def insert_at_def)

section \<open>Payment creation without an owner\<close>

text \<open>
  Claim C10. Some request to \<^verbatim>\<open>POST /api/payments\<close> omits \<^verbatim>\<open>userId\<close> and
  still succeeds: for every body that has no \<^verbatim>\<open>userId\<close>, passes the schema's
  validators and whose \<^verbatim>\<open>_id\<close>, missing (then the generated one) or an
  identifier, is no stored payment's, the handler answers 201, and the payment it
  returns and adds to the collection has no \<^verbatim>\<open>userId\<close>. The schema does not
  require the path and the handler passes the body on as it is.
\<close>

theorem createPayment_without_userId:
  assumes "req_userId b = Absent" and "validatePayment nullOk b = []"
    and "req_payment_id b = Absent \<and> i = newId \<or> req_payment_id b = Given i"
    and "Some i \<notin> set (map payment_id (payments db))"
  shows "\<exists>p. createPayment nullOk newId now pos b db =
           (send 201 (PaymentBody p), db\<lparr>payments := insert_at pos p (payments db)\<rparr>) \<and>
         userId p = None"
  using createPayment_fresh [OF assms(2,3,4), of now pos] assms(1)
  by auto

theorem createPayment_without_userId_witness:
  "req_userId \<lparr>req_payment_id = Absent, req_userId = Absent, req_amount = Given 10,
      req_currency = Given ''USD'', req_status = Absent, req_createdAt = Absent\<rparr> = Absent \<and>
   validatePayment False \<lparr>req_payment_id = Absent, req_userId = Absent, req_amount = Given 10,
      req_currency = Given ''USD'', req_status = Absent, req_createdAt = Absent\<rparr> = [] \<and>
   createPayment False 1 1000 0 \<lparr>req_payment_id = Absent, req_userId = Absent,
      req_amount = Given 10, req_currency = Given ''USD'', req_status = Absent,
      req_createdAt = Absent\<rparr> empty_store =
     (send 201 (PaymentBody \<lparr>payment_id = Some 1, userId = None, amount = 10,
        currency = ''USD'', status = Some ''pending'', createdAt = Some 1000\<rparr>),
      \<lparr>users = [], payments = [\<lparr>payment_id = Some 1, userId = None, amount = 10,
        currency = ''USD'', status = Some ''pending'', createdAt = Some 1000\<rparr>]\<rparr>)"
  using createPayment_without_userId [of "\<lparr>req_payment_id = Absent, req_userId = Absent,
      req_amount = Given 10, req_currency = Given ''USD'', req_status = Absent,
      req_createdAt = Absent\<rparr>" False 1 1 empty_store 1000 0]
  by (simp add: createPayment_def newPayment_def validatePayment_def status_enum_def
      empty_store_def send_def insert_at_def)

end
